theory Spec2Isabelle
  imports Main "HOL-Library.Sublist"
begin

section \<open>The screenshot verifier of verification/verify\_chat.py\<close>

text \<open>
  The script is twenty lines of Python that drive a headless browser through the
  Playwright library: launch, new context, new page, goto, wait, screenshot, close, all
  inside a \<^verbatim>\<open>with sync_playwright() as playwright\<close> block. The library is
  not part of the repository, so it is a parameter of the model: a record of functions
  that say, for each call the script makes, whether the call returns (and what) or
  raises. The script itself is modelled statement by statement, with Python's rule that
  a raised exception ends the enclosing function unless a handler catches it; the script
  has no handler.
\<close>

subsection \<open>Values the library hands back\<close>

datatype browser = Browser nat
datatype browser_context = BrowserContext nat
datatype page = Page nat

text \<open>The response of a navigation: its HTTP status.\<close>

datatype response = Response nat

type_synonym image = "nat list"

text \<open>
  What a call can raise. The script never inspects an exception, so the three
  constructors only keep apart the library's own error, its timeout error and an
  operating-system error from writing the file.
\<close>

datatype fault = PlaywrightError string | PlaywrightTimeout string | OSError string

subsection \<open>The library as a parameter\<close>

text \<open>
  One field per method the script calls, with the receiver first and the arguments as
  the script passes them. \<open>Inl e\<close> is "raises e", \<open>Inr v\<close> is "returns v".
  \<open>goto\<close> returns an optional response. \<open>screenshot\<close> takes the
  \<^verbatim>\<open>path\<close> keyword and the \<^verbatim>\<open>full_page\<close> keyword, the latter
  \<open>None\<close> when the caller does not pass it.
\<close>

record playwright =
  chromium_launch :: "bool \<Rightarrow> fault + browser"
  new_context :: "browser \<Rightarrow> fault + browser_context"
  new_page :: "browser_context \<Rightarrow> fault + page"
  goto :: "page \<Rightarrow> string \<Rightarrow> fault + response option"
  wait_for_timeout :: "page \<Rightarrow> nat \<Rightarrow> fault + unit"
  screenshot :: "page \<Rightarrow> string \<Rightarrow> bool option \<Rightarrow> fault + image"
  browser_close :: "browser \<Rightarrow> fault + unit"

text \<open>
  The context manager behind \<^verbatim>\<open>sync_playwright()\<close>: entering it starts the
  driver and yields the \<open>playwright\<close> object (or raises); leaving it stops the driver.
  \<open>leave\<close> receives the exception in flight, if any, and either returns
  (\<open>None\<close>) or raises. The library declares \<^verbatim>\<open>__exit__\<close> with return type
  \<^verbatim>\<open>None\<close>, a false value, so a returning \<open>leave\<close> never swallows the exception.
\<close>

record sync_playwright =
  enter :: "fault + playwright"
  leave :: "fault option \<Rightarrow> fault option"

subsection \<open>What the script does to the world\<close>

text \<open>
  The calls issued, in order, with their arguments (receivers are left out: there is one
  browser, one context and one page), and the files known to have been saved by a
  screenshot call that returned.
\<close>

datatype api_call =
    Enter
  | Launch bool
  | NewContext
  | NewPage
  | Goto string
  | WaitForTimeout nat
  | Screenshot string "bool option"
  | BrowserClose
  | Leave "fault option"

record world =
  calls :: "api_call list"
  saved :: "string \<rightharpoonup> image"

type_synonym 'a prog = "world \<Rightarrow> (fault + 'a) \<times> world"

text \<open>Issue one library call: log it and hand back what the library answers.\<close>

definition invoke :: "api_call \<Rightarrow> fault + 'a \<Rightarrow> 'a prog" where
  "invoke c r w = (r, w\<lparr>calls := calls w @ [c]\<rparr>)"

text \<open>
  Two statements in sequence: when the first raises, the second is not run and the
  exception is the result.
\<close>

definition and_then :: "'a prog \<Rightarrow> ('a \<Rightarrow> 'b prog) \<Rightarrow> 'b prog" where
  "and_then m f w =
     (case m w of
        (Inl e, w') \<Rightarrow> (Inl e, w')
      | (Inr a, w') \<Rightarrow> f a w')"

text \<open>
  \<^verbatim>\<open>page.screenshot(path=..., full_page=...)\<close>: when the call returns, the image
  it returns has been saved at \<open>path\<close>, replacing what was there; when it raises,
  nothing is recorded as saved.
\<close>

definition page_screenshot :: "playwright \<Rightarrow> page \<Rightarrow> string \<Rightarrow> bool option \<Rightarrow> image prog" where
  "page_screenshot pw pg pth fp w =
     (case screenshot pw pg pth fp of
        Inl e \<Rightarrow> (Inl e, w\<lparr>calls := calls w @ [Screenshot pth fp]\<rparr>)
      | Inr img \<Rightarrow>
          (Inr img, w\<lparr>calls := calls w @ [Screenshot pth fp], saved := (saved w)(pth \<mapsto> img)\<rparr>))"

text \<open>
  Whether a screenshot call captures the whole scrollable page: only when
  \<^verbatim>\<open>full_page\<close> is passed as true; the keyword defaults to false (the visible
  viewport).
\<close>

fun captures_full_page :: "api_call \<Rightarrow> bool" where
  "captures_full_page (Screenshot pth fp) = (case fp of None \<Rightarrow> False | Some b \<Rightarrow> b)"
| "captures_full_page _ = False"

fun is_screenshot :: "api_call \<Rightarrow> bool" where
  "is_screenshot (Screenshot pth fp) = True"
| "is_screenshot _ = False"

subsection \<open>The script\<close>

text \<open>
  \<^verbatim>\<open>def run(playwright)\<close>, lines 3 to 17: seven calls in a row, no branch, no
  loop, no handler. The value of \<^verbatim>\<open>page.goto\<close> is not bound to anything.
\<close>

definition run :: "playwright \<Rightarrow> unit prog" where
  "run pw =
     and_then (invoke (Launch True) (chromium_launch pw True)) (\<lambda>browser.
     and_then (invoke NewContext (new_context pw browser)) (\<lambda>context.
     and_then (invoke NewPage (new_page pw context)) (\<lambda>page.
     and_then (invoke (Goto ''http://localhost:1420/'') (goto pw page ''http://localhost:1420/'')) (\<lambda>_.
     and_then (invoke (WaitForTimeout 5000) (wait_for_timeout pw page 5000)) (\<lambda>_.
     and_then (page_screenshot pw page ''verification/verification.png'' None) (\<lambda>_.
     invoke BrowserClose (browser_close pw browser)))))))"

text \<open>
  Lines 19 and 20, \<^verbatim>\<open>with sync_playwright() as playwright: run(playwright)\<close>,
  by Python's rule for \<^verbatim>\<open>with\<close>: when entering raises, the body and the exit
  are not run; otherwise the exit runs after the body on every path, and receives the
  body's exception if there is one. The result is the exception that leaves the script
  uncaught, if any.
\<close>

definition script :: "sync_playwright \<Rightarrow> world \<Rightarrow> fault option \<times> world" where
  "script cm w =
     (case enter cm of
        Inl e \<Rightarrow> (Some e, w\<lparr>calls := calls w @ [Enter]\<rparr>)
      | Inr pw \<Rightarrow>
          (case run pw (w\<lparr>calls := calls w @ [Enter]\<rparr>) of
             (r, w1) \<Rightarrow>
               (let exc = (case r of Inl e \<Rightarrow> Some e | Inr _ \<Rightarrow> None);
                    w2 = w1\<lparr>calls := calls w1 @ [Leave exc]\<rparr>
                in case leave cm exc of
                     Some e' \<Rightarrow> (Some e', w2)
                   | None \<Rightarrow> (exc, w2))))"

text \<open>The interpreter's exit status: 0 on normal completion, 1 on an uncaught exception.\<close>

definition exit_status :: "fault option \<Rightarrow> nat" where
  "exit_status unc = (case unc of None \<Rightarrow> 0 | Some _ \<Rightarrow> 1)"

text \<open>A world in which nothing has been called yet.\<close>

definition fresh :: "(string \<rightharpoonup> image) \<Rightarrow> world" where
  "fresh fs = \<lparr>calls = [], saved = fs\<rparr>"

subsection \<open>Concrete libraries for evaluation\<close>

text \<open>A library in which every call returns; the page answers 200 and the capture is three bytes.\<close>

definition ok_playwright :: playwright where
  "ok_playwright =
     \<lparr>chromium_launch = (\<lambda>h. Inr (Browser 1)),
      new_context = (\<lambda>b. Inr (BrowserContext 2)),
      new_page = (\<lambda>c. Inr (Page 3)),
      goto = (\<lambda>p u. Inr (Some (Response 200))),
      wait_for_timeout = (\<lambda>p ms. Inr ()),
      screenshot = (\<lambda>p pth fp. Inr [137, 80, 78]),
      browser_close = (\<lambda>b. Inr ())\<rparr>"

text \<open>The same library with nothing listening on the port: the navigation raises.\<close>

definition refused_playwright :: playwright where
  "refused_playwright =
     ok_playwright\<lparr>goto := (\<lambda>p u. Inl (PlaywrightError ''net::ERR_CONNECTION_REFUSED''))\<rparr>"


definition refused_manager :: sync_playwright where
  "refused_manager = \<lparr>enter = Inr refused_playwright, leave = (\<lambda>exc. None)\<rparr>"

text \<open>The same library against a server that answers 500.\<close>

definition error_page_playwright :: playwright where
  "error_page_playwright = ok_playwright\<lparr>goto := (\<lambda>p u. Inr (Some (Response 500)))\<rparr>"



text \<open>Libraries in which one call raises: the launch, the screenshot, the close.\<close>

definition launch_fails_playwright :: playwright where
  "launch_fails_playwright =
     ok_playwright\<lparr>chromium_launch := (\<lambda>h. Inl (PlaywrightError ''browser executable not found''))\<rparr>"

definition unwritable_playwright :: playwright where
  "unwritable_playwright =
     ok_playwright\<lparr>screenshot := (\<lambda>p pth fp. Inl (OSError ''permission denied''))\<rparr>"

definition close_fails_playwright :: playwright where
  "close_fails_playwright =
     ok_playwright\<lparr>browser_close := (\<lambda>b. Inl (PlaywrightError ''connection closed''))\<rparr>"

text \<open>A file left at the output path by an earlier run.\<close>

definition stale_files :: "string \<rightharpoonup> image" where
  "stale_files = [''verification/verification.png'' \<mapsto> [0]]"

subsection \<open>Elapsed time\<close>

text \<open>
  The script is sequential, so the moment a call is issued is the sum of the times
  taken by the calls before it. \<open>dur c\<close> is the time in milliseconds from the moment the
  script issues the call \<open>c\<close> to the moment it issues the next one; it is a
  parameter, like the library. \<open>started_at dur cs c\<close> is the moment, counted from the
  first call of the log \<open>cs\<close>, at which \<open>c\<close> is issued, and \<open>None\<close> when \<open>c\<close> is
  not in the log. The calls of one \<open>run\<close> are all different, so a time per call loses
  nothing.
\<close>

fun started_at :: "(api_call \<Rightarrow> nat) \<Rightarrow> api_call list \<Rightarrow> api_call \<Rightarrow> nat option" where
  "started_at dur [] c = None"
| "started_at dur (x # xs) c =
     (if x = c then Some 0
      else (case started_at dur xs c of None \<Rightarrow> None | Some t \<Rightarrow> Some (dur x + t)))"

text \<open>
  Times for evaluation: a page that loads at once, and a wait that takes one millisecond
  more than asked.
\<close>

fun quick_durations :: "api_call \<Rightarrow> nat" where
  "quick_durations (Launch h) = 400"
| "quick_durations (Goto u) = 0"
| "quick_durations (WaitForTimeout n) = n + 1"
| "quick_durations _ = 10"

section \<open>Properties\<close>

subsection \<open>Shared facts about \<open>run\<close> and \<open>script\<close>\<close>

lemmas run_defs = run_def and_then_def invoke_def page_screenshot_def

lemma run_ok_playwright:
  "run ok_playwright (fresh fs) =
     (Inr (),
      \<lparr>calls = [Launch True, NewContext, NewPage, Goto ''http://localhost:1420/'',
                WaitForTimeout 5000, Screenshot ''verification/verification.png'' None,
                BrowserClose],
       saved = fs(''verification/verification.png'' \<mapsto> [137, 80, 78])\<rparr>)"
  by (simp add: run_defs ok_playwright_def fresh_def)

lemma run_refused_playwright:
  "run refused_playwright (fresh fs) =
     (Inl (PlaywrightError ''net::ERR_CONNECTION_REFUSED''),
      \<lparr>calls = [Launch True, NewContext, NewPage, Goto ''http://localhost:1420/''],
       saved = fs\<rparr>)"
  by (simp add: run_defs refused_playwright_def ok_playwright_def fresh_def)

text \<open>Whether \<open>run\<close> raises does not depend on the world it starts in.\<close>

lemma run_result_indep: "fst (run pw w) = fst (run pw w')"
  by (simp add: run_defs split: sum.splits)

text \<open>\<open>run\<close> only appends to the log of calls.\<close>

lemma run_calls_append: "calls (snd (run pw w)) = calls w @ calls (snd (run pw (fresh fs)))"
  by (simp add: run_defs fresh_def split: sum.splits)





text \<open>The calls of the whole script: enter, the calls of \<open>run\<close>, leave.\<close>

lemma script_calls:
  "(enter cm = Inl e \<longrightarrow> calls (snd (script cm w)) = calls w @ [Enter]) \<and>
   (enter cm = Inr pw \<longrightarrow>
      calls (snd (script cm w)) =
        calls w @ [Enter] @ calls (snd (run pw (fresh fs))) @
          [Leave (case fst (run pw (fresh fs)) of Inl e' \<Rightarrow> Some e' | Inr u \<Rightarrow> None)])"
proof -
  have "calls (snd (run pw (w\<lparr>calls := calls w @ [Enter]\<rparr>))) =
          calls w @ [Enter] @ calls (snd (run pw (fresh fs)))"
    using run_calls_append [of pw "w\<lparr>calls := calls w @ [Enter]\<rparr>" fs] by simp
  moreover have "fst (run pw (w\<lparr>calls := calls w @ [Enter]\<rparr>)) = fst (run pw (fresh fs))"
    by (rule run_result_indep)
  ultimately show ?thesis
    by (auto simp: script_def Let_def split: prod.splits option.splits sum.splits)
qed

lemma run_calls_distinct:
  "distinct (calls (snd (run pw (fresh fs)))) \<and>
   Enter \<notin> set (calls (snd (run pw (fresh fs)))) \<and>
   Leave exc \<notin> set (calls (snd (run pw (fresh fs))))"
  by (simp add: run_defs fresh_def split: sum.splits)

lemma script_calls_distinct: "distinct (calls (snd (script cm (fresh fs))))"
proof (cases "enter cm")
  case (Inl e)
  with script_calls [where cm = cm and e = e and w = "fresh fs"] show ?thesis
    by (simp add: fresh_def)
next
  case (Inr pw)
  with script_calls [where cm = cm and pw = pw and w = "fresh fs" and fs = fs]
    run_calls_distinct [of pw fs]
  show ?thesis by (simp add: fresh_def)
qed

subsection \<open>The order of the calls\<close>

text \<open>
  C4. The calls that \<open>run\<close> issues are launch, new context, new page, goto, wait,
  screenshot, close, in that order, and the log stops exactly at the first call that
  raises: for each of the seven calls, when it is the first to raise, \<open>run\<close> ends with
  its exception, the log is the calls up to and including it, and nothing after it is
  issued; when none raises, \<open>run\<close> returns and the log is all seven. No call is made
  twice. The file at the output path is what the screenshot call returned, and it is
  saved before the close is issued: a close that raises leaves it saved; a raise at the
  screenshot or earlier leaves the files as they were.
\<close>

theorem run_linear_order:
  "(chromium_launch pw True = Inl e \<longrightarrow>
      run pw (fresh fs) = (Inl e, \<lparr>calls = [Launch True], saved = fs\<rparr>)) \<and>
   (chromium_launch pw True = Inr b \<longrightarrow>
     (new_context pw b = Inl e \<longrightarrow>
        run pw (fresh fs) = (Inl e, \<lparr>calls = [Launch True, NewContext], saved = fs\<rparr>)) \<and>
     (new_context pw b = Inr c \<longrightarrow>
       (new_page pw c = Inl e \<longrightarrow>
          run pw (fresh fs) =
            (Inl e, \<lparr>calls = [Launch True, NewContext, NewPage], saved = fs\<rparr>)) \<and>
       (new_page pw c = Inr p \<longrightarrow>
         (goto pw p ''http://localhost:1420/'' = Inl e \<longrightarrow>
            run pw (fresh fs) =
              (Inl e, \<lparr>calls = [Launch True, NewContext, NewPage,
                                Goto ''http://localhost:1420/''],
                       saved = fs\<rparr>)) \<and>
         (goto pw p ''http://localhost:1420/'' = Inr r \<longrightarrow>
           (wait_for_timeout pw p 5000 = Inl e \<longrightarrow>
              run pw (fresh fs) =
                (Inl e, \<lparr>calls = [Launch True, NewContext, NewPage,
                                  Goto ''http://localhost:1420/'', WaitForTimeout 5000],
                         saved = fs\<rparr>)) \<and>
           (wait_for_timeout pw p 5000 = Inr () \<longrightarrow>
             (screenshot pw p ''verification/verification.png'' None = Inl e \<longrightarrow>
                run pw (fresh fs) =
                  (Inl e, \<lparr>calls = [Launch True, NewContext, NewPage,
                                    Goto ''http://localhost:1420/'', WaitForTimeout 5000,
                                    Screenshot ''verification/verification.png'' None],
                           saved = fs\<rparr>)) \<and>
             (screenshot pw p ''verification/verification.png'' None = Inr img \<longrightarrow>
               (browser_close pw b = Inl e \<longrightarrow>
                  run pw (fresh fs) =
                    (Inl e, \<lparr>calls = [Launch True, NewContext, NewPage,
                                      Goto ''http://localhost:1420/'', WaitForTimeout 5000,
                                      Screenshot ''verification/verification.png'' None,
                                      BrowserClose],
                             saved = fs(''verification/verification.png'' \<mapsto> img)\<rparr>)) \<and>
               (browser_close pw b = Inr () \<longrightarrow>
                  run pw (fresh fs) =
                    (Inr (), \<lparr>calls = [Launch True, NewContext, NewPage,
                                       Goto ''http://localhost:1420/'', WaitForTimeout 5000,
                                       Screenshot ''verification/verification.png'' None,
                                       BrowserClose],
                              saved = fs(''verification/verification.png'' \<mapsto> img)\<rparr>)))))))) \<and>
   prefix (calls (snd (run pw (fresh fs))))
     [Launch True, NewContext, NewPage, Goto ''http://localhost:1420/'', WaitForTimeout 5000,
      Screenshot ''verification/verification.png'' None, BrowserClose] \<and>
   distinct (calls (snd (run pw (fresh fs)))) \<and>
   (fst (run pw (fresh fs)) = Inr () \<longrightarrow>
      calls (snd (run pw (fresh fs))) =
        [Launch True, NewContext, NewPage, Goto ''http://localhost:1420/'', WaitForTimeout 5000,
         Screenshot ''verification/verification.png'' None, BrowserClose])"
  by (simp add: run_defs fresh_def split: sum.splits)

text \<open>
  The theorem of C4 at four libraries, each starting with a stale file at the output
  path: every call returns (seven calls, the stale file replaced by the capture); the
  launch raises (one call); the screenshot raises (six calls, the stale file untouched);
  the close raises (seven calls, the capture already saved).
\<close>

theorem run_linear_order_witness:
  "chromium_launch ok_playwright True = Inr (Browser 1) \<and>
   new_context ok_playwright (Browser 1) = Inr (BrowserContext 2) \<and>
   new_page ok_playwright (BrowserContext 2) = Inr (Page 3) \<and>
   goto ok_playwright (Page 3) ''http://localhost:1420/'' = Inr (Some (Response 200)) \<and>
   wait_for_timeout ok_playwright (Page 3) 5000 = Inr () \<and>
   screenshot ok_playwright (Page 3) ''verification/verification.png'' None
     = Inr [137, 80, 78] \<and>
   browser_close ok_playwright (Browser 1) = Inr () \<and>
   run ok_playwright (fresh stale_files) =
     (Inr (), \<lparr>calls = [Launch True, NewContext, NewPage, Goto ''http://localhost:1420/'',
                        WaitForTimeout 5000, Screenshot ''verification/verification.png'' None,
                        BrowserClose],
               saved = stale_files(''verification/verification.png'' \<mapsto> [137, 80, 78])\<rparr>) \<and>
   chromium_launch launch_fails_playwright True
     = Inl (PlaywrightError ''browser executable not found'') \<and>
   run launch_fails_playwright (fresh stale_files) =
     (Inl (PlaywrightError ''browser executable not found''),
      \<lparr>calls = [Launch True], saved = stale_files\<rparr>) \<and>
   screenshot unwritable_playwright (Page 3) ''verification/verification.png'' None
     = Inl (OSError ''permission denied'') \<and>
   run unwritable_playwright (fresh stale_files) =
     (Inl (OSError ''permission denied''),
      \<lparr>calls = [Launch True, NewContext, NewPage, Goto ''http://localhost:1420/'',
                WaitForTimeout 5000, Screenshot ''verification/verification.png'' None],
       saved = stale_files\<rparr>) \<and>
   browser_close close_fails_playwright (Browser 1)
     = Inl (PlaywrightError ''connection closed'') \<and>
   run close_fails_playwright (fresh stale_files) =
     (Inl (PlaywrightError ''connection closed''),
      \<lparr>calls = [Launch True, NewContext, NewPage, Goto ''http://localhost:1420/'',
                WaitForTimeout 5000, Screenshot ''verification/verification.png'' None,
                BrowserClose],
       saved = stale_files(''verification/verification.png'' \<mapsto> [137, 80, 78])\<rparr>) \<and>
   fst (run ok_playwright (fresh stale_files)) = Inr () \<and>
   calls (snd (run ok_playwright (fresh stale_files))) =
     [Launch True, NewContext, NewPage, Goto ''http://localhost:1420/'', WaitForTimeout 5000,
      Screenshot ''verification/verification.png'' None, BrowserClose]"
proof -
  have k: "chromium_launch ok_playwright True = Inr (Browser 1)"
      "new_context ok_playwright (Browser 1) = Inr (BrowserContext 2)"
      "new_page ok_playwright (BrowserContext 2) = Inr (Page 3)"
      "goto ok_playwright (Page 3) ''http://localhost:1420/'' = Inr (Some (Response 200))"
      "wait_for_timeout ok_playwright (Page 3) 5000 = Inr ()"
      "screenshot ok_playwright (Page 3) ''verification/verification.png'' None
         = Inr [137, 80, 78]"
      "browser_close ok_playwright (Browser 1) = Inr ()"
    by (simp_all add: ok_playwright_def)
  have l: "chromium_launch launch_fails_playwright True
      = Inl (PlaywrightError ''browser executable not found'')"
    by (simp add: launch_fails_playwright_def)
  have u: "chromium_launch unwritable_playwright True = Inr (Browser 1)"
      "new_context unwritable_playwright (Browser 1) = Inr (BrowserContext 2)"
      "new_page unwritable_playwright (BrowserContext 2) = Inr (Page 3)"
      "goto unwritable_playwright (Page 3) ''http://localhost:1420/''
         = Inr (Some (Response 200))"
      "wait_for_timeout unwritable_playwright (Page 3) 5000 = Inr ()"
      "screenshot unwritable_playwright (Page 3) ''verification/verification.png'' None
         = Inl (OSError ''permission denied'')"
    by (simp_all add: unwritable_playwright_def ok_playwright_def)
  have c: "chromium_launch close_fails_playwright True = Inr (Browser 1)"
      "new_context close_fails_playwright (Browser 1) = Inr (BrowserContext 2)"
      "new_page close_fails_playwright (BrowserContext 2) = Inr (Page 3)"
      "goto close_fails_playwright (Page 3) ''http://localhost:1420/''
         = Inr (Some (Response 200))"
      "wait_for_timeout close_fails_playwright (Page 3) 5000 = Inr ()"
      "screenshot close_fails_playwright (Page 3) ''verification/verification.png'' None
         = Inr [137, 80, 78]"
      "browser_close close_fails_playwright (Browser 1)
         = Inl (PlaywrightError ''connection closed'')"
    by (simp_all add: close_fails_playwright_def ok_playwright_def)
  note served = run_linear_order [where pw = ok_playwright and fs = stale_files
      and b = "Browser 1" and c = "BrowserContext 2" and p = "Page 3"
      and r = "Some (Response 200)" and img = "[137, 80, 78]"]
  note unlaunched = run_linear_order [where pw = launch_fails_playwright and fs = stale_files
      and e = "PlaywrightError ''browser executable not found''"]
  note unwritten = run_linear_order [where pw = unwritable_playwright and fs = stale_files
      and b = "Browser 1" and c = "BrowserContext 2" and p = "Page 3"
      and r = "Some (Response 200)" and e = "OSError ''permission denied''"]
  note unclosed = run_linear_order [where pw = close_fails_playwright and fs = stale_files
      and b = "Browser 1" and c = "BrowserContext 2" and p = "Page 3"
      and r = "Some (Response 200)" and img = "[137, 80, 78]"
      and e = "PlaywrightError ''connection closed''"]
  have run_ok: "run ok_playwright (fresh stale_files) =
     (Inr (), \<lparr>calls = [Launch True, NewContext, NewPage, Goto ''http://localhost:1420/'',
                        WaitForTimeout 5000, Screenshot ''verification/verification.png'' None,
                        BrowserClose],
               saved = stale_files(''verification/verification.png'' \<mapsto> [137, 80, 78])\<rparr>)"
    using served k by blast
  have ret: "fst (run ok_playwright (fresh stale_files)) = Inr ()"
    by (simp add: run_ok)
  from served ret have all_seven: "calls (snd (run ok_playwright (fresh stale_files))) =
     [Launch True, NewContext, NewPage, Goto ''http://localhost:1420/'', WaitForTimeout 5000,
      Screenshot ''verification/verification.png'' None, BrowserClose]"
    by blast
  have run_l: "run launch_fails_playwright (fresh stale_files) =
     (Inl (PlaywrightError ''browser executable not found''),
      \<lparr>calls = [Launch True], saved = stale_files\<rparr>)"
    using unlaunched l by blast
  have run_u: "run unwritable_playwright (fresh stale_files) =
     (Inl (OSError ''permission denied''),
      \<lparr>calls = [Launch True, NewContext, NewPage, Goto ''http://localhost:1420/'',
                WaitForTimeout 5000, Screenshot ''verification/verification.png'' None],
       saved = stale_files\<rparr>)"
    using unwritten u by blast
  have run_c: "run close_fails_playwright (fresh stale_files) =
     (Inl (PlaywrightError ''connection closed''),
      \<lparr>calls = [Launch True, NewContext, NewPage, Goto ''http://localhost:1420/'',
                WaitForTimeout 5000, Screenshot ''verification/verification.png'' None,
                BrowserClose],
       saved = stale_files(''verification/verification.png'' \<mapsto> [137, 80, 78])\<rparr>)"
    using unclosed c by blast
  from k l u(6) c(7) run_ok run_l run_u run_c ret all_seven show ?thesis
    by blast
qed

subsection \<open>The time between the navigation and the screenshot\<close>

text \<open>
  C7. Take any times for the calls, subject to the library's contract for
  \<^verbatim>\<open>page.wait_for_timeout\<close>: a wait for n milliseconds takes at least n
  milliseconds. In every \<open>run\<close> that issues the screenshot, the goto was issued
  earlier, and the time from the moment the goto is issued to the moment the screenshot
  is issued is the time of the goto plus the time of the wait, hence at least 5000
  milliseconds, however short the goto was.
\<close>

theorem fixed_timing:
  assumes "\<And>n. n \<le> dur (WaitForTimeout n)"
    and "started_at dur (calls (snd (run pw (fresh fs))))
           (Screenshot ''verification/verification.png'' None) = Some ts"
  shows "\<exists>tg. started_at dur (calls (snd (run pw (fresh fs)))) (Goto ''http://localhost:1420/'')
                = Some tg \<and>
              ts = tg + dur (Goto ''http://localhost:1420/'') + dur (WaitForTimeout 5000) \<and>
              tg + 5000 \<le> ts"
proof -
  have w: "5000 \<le> dur (WaitForTimeout 5000)" by (rule assms(1))
  from assms(2) have
    "started_at dur (calls (snd (run pw (fresh fs)))) (Goto ''http://localhost:1420/'')
       = Some (dur (Launch True) + dur NewContext + dur NewPage) \<and>
     ts = dur (Launch True) + dur NewContext + dur NewPage
          + dur (Goto ''http://localhost:1420/'') + dur (WaitForTimeout 5000)"
    by (auto simp: run_defs fresh_def split: sum.splits)
  with w show ?thesis by simp
qed

text \<open>
  The theorem of C7 at a page that loads in no time: the goto is issued at 420 ms, the
  screenshot at 5421 ms.
\<close>

theorem fixed_timing_witness:
  "(\<forall>n. n \<le> quick_durations (WaitForTimeout n)) \<and>
   started_at quick_durations (calls (snd (run ok_playwright (fresh Map.empty))))
     (Screenshot ''verification/verification.png'' None) = Some 5421 \<and>
   started_at quick_durations (calls (snd (run ok_playwright (fresh Map.empty))))
     (Goto ''http://localhost:1420/'') = Some 420 \<and>
   quick_durations (Goto ''http://localhost:1420/'') = 0"
proof -
  have h1: "\<And>n. n \<le> quick_durations (WaitForTimeout n)"
    by simp
  have h2: "started_at quick_durations (calls (snd (run ok_playwright (fresh Map.empty))))
      (Screenshot ''verification/verification.png'' None) = Some 5421"
    by (simp add: run_ok_playwright)
  from fixed_timing [OF h1 h2] obtain tg where
    tg: "started_at quick_durations (calls (snd (run ok_playwright (fresh Map.empty))))
           (Goto ''http://localhost:1420/'') = Some tg"
    and eq: "5421 = tg + quick_durations (Goto ''http://localhost:1420/'')
                  + quick_durations (WaitForTimeout 5000)"
    by blast
  from eq have "tg = 420" by simp
  with tg h1 h2 show ?thesis by simp
qed

subsection \<open>The arguments of the calls\<close>

text \<open>
  C1. \<open>run\<close> has no parameter for the address, the delay or the file: whatever the
  library does and whatever files exist, a goto it issues is to
  \<^verbatim>\<open>http://localhost:1420/\<close>, a wait it issues is for 5000 milliseconds, a
  screenshot it issues is to \<^verbatim>\<open>verification/verification.png\<close>, and no other
  file is saved. A \<open>run\<close> that returns has issued all three and saved the file.
\<close>

theorem run_fixed_constants:
  "(Goto u \<in> set (calls (snd (run pw (fresh fs)))) \<longrightarrow> u = ''http://localhost:1420/'') \<and>
   (WaitForTimeout ms \<in> set (calls (snd (run pw (fresh fs)))) \<longrightarrow> ms = 5000) \<and>
   (Screenshot pth fp \<in> set (calls (snd (run pw (fresh fs)))) \<longrightarrow>
      pth = ''verification/verification.png'') \<and>
   (saved (snd (run pw (fresh fs))) q \<noteq> fs q \<longrightarrow> q = ''verification/verification.png'') \<and>
   (fst (run pw (fresh fs)) = Inr () \<longrightarrow>
      Goto ''http://localhost:1420/'' \<in> set (calls (snd (run pw (fresh fs)))) \<and>
      WaitForTimeout 5000 \<in> set (calls (snd (run pw (fresh fs)))) \<and>
      Screenshot ''verification/verification.png'' None \<in> set (calls (snd (run pw (fresh fs)))) \<and>
      saved (snd (run pw (fresh fs))) ''verification/verification.png'' \<noteq> None)"
  by (simp add: run_defs fresh_def split: sum.splits)

text \<open>The theorem of C1 at the library in which every call returns, starting with no files.\<close>

theorem run_fixed_constants_witness:
  "fst (run ok_playwright (fresh Map.empty)) = Inr () \<and>
   Goto ''http://localhost:1420/'' \<in> set (calls (snd (run ok_playwright (fresh Map.empty)))) \<and>
   WaitForTimeout 5000 \<in> set (calls (snd (run ok_playwright (fresh Map.empty)))) \<and>
   Screenshot ''verification/verification.png'' None
     \<in> set (calls (snd (run ok_playwright (fresh Map.empty)))) \<and>
   saved (snd (run ok_playwright (fresh Map.empty))) ''verification/verification.png''
     \<noteq> (Map.empty :: string \<rightharpoonup> image) ''verification/verification.png''"
proof -
  have ret: "fst (run ok_playwright (fresh Map.empty)) = Inr ()"
    by (simp add: run_ok_playwright)
  from run_fixed_constants [where pw = ok_playwright and fs = Map.empty] ret show ?thesis
    by simp
qed

text \<open>
  C2, as the spec states it, fails: in the run where every call returns, the one
  screenshot call does not ask for the full page, so the capture is the viewport.
\<close>

theorem screenshot_not_full_page_counterexample:
  "map captures_full_page (filter is_screenshot (calls (snd (run ok_playwright (fresh Map.empty)))))
     = [False]"
  by (simp add: run_ok_playwright)

text \<open>
  C2, amended. Every screenshot call that \<open>run\<close> issues passes the path only: the
  \<^verbatim>\<open>full_page\<close> keyword is absent, so the capture is the library's default, the
  visible viewport, not the whole scrollable page.
\<close>

theorem screenshot_default_capture:
  "Screenshot pth fp \<in> set (calls (snd (run pw (fresh fs)))) \<Longrightarrow>
     fp = None \<and> \<not> captures_full_page (Screenshot pth fp)"
  by (simp add: run_defs fresh_def split: sum.splits)

text \<open>The amended C2 at the library in which every call returns.\<close>

theorem screenshot_default_capture_witness:
  "Screenshot ''verification/verification.png'' None
     \<in> set (calls (snd (run ok_playwright (fresh Map.empty)))) \<and>
   \<not> captures_full_page (Screenshot ''verification/verification.png'' None)"
proof -
  have issued: "Screenshot ''verification/verification.png'' None
      \<in> set (calls (snd (run ok_playwright (fresh Map.empty))))"
    by (simp add: run_ok_playwright)
  from screenshot_default_capture [OF issued] issued show ?thesis
    by blast
qed

subsection \<open>The outcome of the navigation\<close>

text \<open>
  C3, as the spec states it, fails: with nothing listening on the port the navigation
  raises, \<open>run\<close> ends with that exception after four calls, and neither the wait nor
  the screenshot is issued.
\<close>

theorem navigation_fault_counterexample:
  "fst (run refused_playwright (fresh Map.empty))
     = Inl (PlaywrightError ''net::ERR_CONNECTION_REFUSED'') \<and>
   calls (snd (run refused_playwright (fresh Map.empty))) =
     [Launch True, NewContext, NewPage, Goto ''http://localhost:1420/''] \<and>
   WaitForTimeout 5000 \<notin> set (calls (snd (run refused_playwright (fresh Map.empty)))) \<and>
   Screenshot ''verification/verification.png'' None
     \<notin> set (calls (snd (run refused_playwright (fresh Map.empty))))"
  by (simp add: run_refused_playwright)

text \<open>
  C3, amended. Once the page is open: when the navigation call raises, \<open>run\<close> ends
  there with that exception, having issued neither the wait nor the screenshot and having
  saved nothing; when the navigation call returns, with whatever result, the next call is
  the wait of 5000 milliseconds, and when that returns the next is the screenshot.
\<close>

theorem navigation_outcome:
  assumes "chromium_launch pw True = Inr b" and "new_context pw b = Inr c"
    and "new_page pw c = Inr p"
  shows "(goto pw p ''http://localhost:1420/'' = Inl e \<longrightarrow>
            run pw (fresh fs) =
              (Inl e, \<lparr>calls = [Launch True, NewContext, NewPage, Goto ''http://localhost:1420/''],
                       saved = fs\<rparr>)) \<and>
         (goto pw p ''http://localhost:1420/'' = Inr r \<longrightarrow>
            take 5 (calls (snd (run pw (fresh fs)))) =
              [Launch True, NewContext, NewPage, Goto ''http://localhost:1420/'',
               WaitForTimeout 5000] \<and>
            (wait_for_timeout pw p 5000 = Inr () \<longrightarrow>
               take 6 (calls (snd (run pw (fresh fs)))) =
                 [Launch True, NewContext, NewPage, Goto ''http://localhost:1420/'',
                  WaitForTimeout 5000, Screenshot ''verification/verification.png'' None]))"
  using assms by (simp add: run_defs fresh_def split: sum.splits)

text \<open>
  The amended C3 at two libraries: one whose navigation raises, one whose navigation
  returns.
\<close>

theorem navigation_outcome_witness:
  "chromium_launch refused_playwright True = Inr (Browser 1) \<and>
   new_context refused_playwright (Browser 1) = Inr (BrowserContext 2) \<and>
   new_page refused_playwright (BrowserContext 2) = Inr (Page 3) \<and>
   goto refused_playwright (Page 3) ''http://localhost:1420/''
     = Inl (PlaywrightError ''net::ERR_CONNECTION_REFUSED'') \<and>
   run refused_playwright (fresh Map.empty) =
     (Inl (PlaywrightError ''net::ERR_CONNECTION_REFUSED''),
      \<lparr>calls = [Launch True, NewContext, NewPage, Goto ''http://localhost:1420/''],
       saved = Map.empty\<rparr>) \<and>
   chromium_launch ok_playwright True = Inr (Browser 1) \<and>
   new_context ok_playwright (Browser 1) = Inr (BrowserContext 2) \<and>
   new_page ok_playwright (BrowserContext 2) = Inr (Page 3) \<and>
   goto ok_playwright (Page 3) ''http://localhost:1420/'' = Inr (Some (Response 200)) \<and>
   wait_for_timeout ok_playwright (Page 3) 5000 = Inr () \<and>
   take 6 (calls (snd (run ok_playwright (fresh Map.empty)))) =
     [Launch True, NewContext, NewPage, Goto ''http://localhost:1420/'',
      WaitForTimeout 5000, Screenshot ''verification/verification.png'' None]"
proof -
  let ?e = "PlaywrightError ''net::ERR_CONNECTION_REFUSED''"
  have r1: "chromium_launch refused_playwright True = Inr (Browser 1)"
    and r2: "new_context refused_playwright (Browser 1) = Inr (BrowserContext 2)"
    and r3: "new_page refused_playwright (BrowserContext 2) = Inr (Page 3)"
    and r4: "goto refused_playwright (Page 3) ''http://localhost:1420/'' = Inl ?e"
    by (simp_all add: refused_playwright_def ok_playwright_def)
  have k1: "chromium_launch ok_playwright True = Inr (Browser 1)"
    and k2: "new_context ok_playwright (Browser 1) = Inr (BrowserContext 2)"
    and k3: "new_page ok_playwright (BrowserContext 2) = Inr (Page 3)"
    and k4: "goto ok_playwright (Page 3) ''http://localhost:1420/'' = Inr (Some (Response 200))"
    and k5: "wait_for_timeout ok_playwright (Page 3) 5000 = Inr ()"
    by (simp_all add: ok_playwright_def)
  note refused = navigation_outcome [OF r1 r2 r3, where e = ?e and fs = Map.empty]
  note served =
    navigation_outcome [OF k1 k2 k3, where r = "Some (Response 200)" and fs = Map.empty]
  from refused served r1 r2 r3 r4 k1 k2 k3 k4 k5 show ?thesis
    by blast
qed

text \<open>
  C9. The value that the navigation call returns is dropped: two libraries that differ
  only in that value give the same \<open>run\<close>. Once the page is open and the navigation has
  returned anything at all, the wait is issued; when the wait returns, the screenshot is
  issued; and when the screenshot and the close return too, \<open>run\<close> returns.
\<close>

theorem goto_response_discarded:
  "run (pw\<lparr>goto := (\<lambda>p u. Inr r)\<rparr>) w = run (pw\<lparr>goto := (\<lambda>p u. Inr r')\<rparr>) w \<and>
   (chromium_launch pw True = Inr b \<and> new_context pw b = Inr c \<and> new_page pw c = Inr p \<and>
    goto pw p ''http://localhost:1420/'' = Inr r'' \<longrightarrow>
      take 5 (calls (snd (run pw (fresh fs)))) =
        [Launch True, NewContext, NewPage, Goto ''http://localhost:1420/'', WaitForTimeout 5000] \<and>
      (wait_for_timeout pw p 5000 = Inr () \<longrightarrow>
         take 6 (calls (snd (run pw (fresh fs)))) =
           [Launch True, NewContext, NewPage, Goto ''http://localhost:1420/'',
            WaitForTimeout 5000, Screenshot ''verification/verification.png'' None] \<and>
         (screenshot pw p ''verification/verification.png'' None = Inr img \<and>
          browser_close pw b = Inr () \<longrightarrow> fst (run pw (fresh fs)) = Inr ())))"
  by (simp add: run_defs fresh_def split: sum.splits)

text \<open>The theorem of C9 at a server that answers 500.\<close>

theorem goto_response_discarded_witness:
  "chromium_launch error_page_playwright True = Inr (Browser 1) \<and>
   new_context error_page_playwright (Browser 1) = Inr (BrowserContext 2) \<and>
   new_page error_page_playwright (BrowserContext 2) = Inr (Page 3) \<and>
   goto error_page_playwright (Page 3) ''http://localhost:1420/'' = Inr (Some (Response 500)) \<and>
   wait_for_timeout error_page_playwright (Page 3) 5000 = Inr () \<and>
   screenshot error_page_playwright (Page 3) ''verification/verification.png'' None
     = Inr [137, 80, 78] \<and>
   browser_close error_page_playwright (Browser 1) = Inr () \<and>
   take 6 (calls (snd (run error_page_playwright (fresh Map.empty)))) =
     [Launch True, NewContext, NewPage, Goto ''http://localhost:1420/'',
      WaitForTimeout 5000, Screenshot ''verification/verification.png'' None] \<and>
   fst (run error_page_playwright (fresh Map.empty)) = Inr ()"
  using goto_response_discarded [where pw = error_page_playwright and b = "Browser 1"
      and c = "BrowserContext 2" and p = "Page 3" and r'' = "Some (Response 500)"
      and fs = Map.empty and img = "[137, 80, 78]"]
  by (simp add: error_page_playwright_def ok_playwright_def)

subsection \<open>Exceptions\<close>

text \<open>
  C5. The script has no handler. Whichever of the seven calls raises first, \<open>run\<close> ends
  with exactly that exception, whatever it is. The script then ends with an uncaught
  exception and exit status 1: the same exception when leaving the context manager
  returns. No call is issued twice. When the exception came before the close, no file has
  been saved.
\<close>

theorem unhandled_faults_abort:
  assumes "enter cm = Inr pw"
  shows
   "(chromium_launch pw True = Inl e \<longrightarrow> fst (run pw w) = Inl e) \<and>
    (chromium_launch pw True = Inr b \<and> new_context pw b = Inl e \<longrightarrow> fst (run pw w) = Inl e) \<and>
    (chromium_launch pw True = Inr b \<and> new_context pw b = Inr c \<and> new_page pw c = Inl e \<longrightarrow>
       fst (run pw w) = Inl e) \<and>
    (chromium_launch pw True = Inr b \<and> new_context pw b = Inr c \<and> new_page pw c = Inr p \<longrightarrow>
       (goto pw p ''http://localhost:1420/'' = Inl e \<longrightarrow> fst (run pw w) = Inl e) \<and>
       (goto pw p ''http://localhost:1420/'' = Inr r \<and> wait_for_timeout pw p 5000 = Inl e \<longrightarrow>
          fst (run pw w) = Inl e) \<and>
       (goto pw p ''http://localhost:1420/'' = Inr r \<and> wait_for_timeout pw p 5000 = Inr () \<and>
        screenshot pw p ''verification/verification.png'' None = Inl e \<longrightarrow>
          fst (run pw w) = Inl e) \<and>
       (goto pw p ''http://localhost:1420/'' = Inr r \<and> wait_for_timeout pw p 5000 = Inr () \<and>
        screenshot pw p ''verification/verification.png'' None = Inr img \<and>
        browser_close pw b = Inl e \<longrightarrow> fst (run pw w) = Inl e)) \<and>
    (fst (run pw w) = Inl e \<longrightarrow>
       exit_status (fst (script cm w)) = 1 \<and>
       (leave cm (Some e) = None \<longrightarrow> fst (script cm w) = Some e) \<and>
       (BrowserClose \<notin> set (calls (snd (run pw (fresh fs)))) \<longrightarrow>
          saved (snd (script cm w)) = saved w)) \<and>
    distinct (calls (snd (script cm (fresh fs))))"
proof -
  have indep: "fst (run pw (w\<lparr>calls := calls w @ [Enter]\<rparr>)) = fst (run pw w)"
    by (rule run_result_indep)
  have steps: "(chromium_launch pw True = Inl e \<longrightarrow> fst (run pw w) = Inl e) \<and>
    (chromium_launch pw True = Inr b \<and> new_context pw b = Inl e \<longrightarrow> fst (run pw w) = Inl e) \<and>
    (chromium_launch pw True = Inr b \<and> new_context pw b = Inr c \<and> new_page pw c = Inl e \<longrightarrow>
       fst (run pw w) = Inl e) \<and>
    (chromium_launch pw True = Inr b \<and> new_context pw b = Inr c \<and> new_page pw c = Inr p \<longrightarrow>
       (goto pw p ''http://localhost:1420/'' = Inl e \<longrightarrow> fst (run pw w) = Inl e) \<and>
       (goto pw p ''http://localhost:1420/'' = Inr r \<and> wait_for_timeout pw p 5000 = Inl e \<longrightarrow>
          fst (run pw w) = Inl e) \<and>
       (goto pw p ''http://localhost:1420/'' = Inr r \<and> wait_for_timeout pw p 5000 = Inr () \<and>
        screenshot pw p ''verification/verification.png'' None = Inl e \<longrightarrow>
          fst (run pw w) = Inl e) \<and>
       (goto pw p ''http://localhost:1420/'' = Inr r \<and> wait_for_timeout pw p 5000 = Inr () \<and>
        screenshot pw p ''verification/verification.png'' None = Inr img \<and>
        browser_close pw b = Inl e \<longrightarrow> fst (run pw w) = Inl e))"
    by (simp add: run_defs split: sum.splits)
  have abort: "exit_status (fst (script cm w)) = 1 \<and>
       (leave cm (Some e) = None \<longrightarrow> fst (script cm w) = Some e)"
    if "fst (run pw w) = Inl e"
    using that assms indep
    by (auto simp: script_def exit_status_def Let_def split: prod.splits option.splits sum.splits)
  have unsaved: "saved (snd (script cm w)) = saved w"
    if "BrowserClose \<notin> set (calls (snd (run pw (fresh fs))))"
  proof -
    have "saved (snd (run pw (w\<lparr>calls := calls w @ [Enter]\<rparr>))) = saved w"
      using that by (simp add: run_defs fresh_def split: sum.splits)
    then show ?thesis
      using assms by (auto simp: script_def Let_def split: prod.splits option.splits sum.splits)
  qed
  have once: "distinct (calls (snd (script cm (fresh fs))))"
    by (rule script_calls_distinct)
  from steps abort unsaved once show ?thesis by blast
qed

text \<open>The theorem of C5 with nothing listening on the port.\<close>

theorem unhandled_faults_abort_witness:
  "enter refused_manager = Inr refused_playwright \<and>
   chromium_launch refused_playwright True = Inr (Browser 1) \<and>
   new_context refused_playwright (Browser 1) = Inr (BrowserContext 2) \<and>
   new_page refused_playwright (BrowserContext 2) = Inr (Page 3) \<and>
   goto refused_playwright (Page 3) ''http://localhost:1420/''
     = Inl (PlaywrightError ''net::ERR_CONNECTION_REFUSED'') \<and>
   leave refused_manager (Some (PlaywrightError ''net::ERR_CONNECTION_REFUSED'')) = None \<and>
   BrowserClose \<notin> set (calls (snd (run refused_playwright (fresh Map.empty)))) \<and>
   fst (run refused_playwright (fresh Map.empty))
     = Inl (PlaywrightError ''net::ERR_CONNECTION_REFUSED'') \<and>
   exit_status (fst (script refused_manager (fresh Map.empty))) = 1 \<and>
   fst (script refused_manager (fresh Map.empty))
     = Some (PlaywrightError ''net::ERR_CONNECTION_REFUSED'') \<and>
   saved (snd (script refused_manager (fresh Map.empty))) = saved (fresh Map.empty)"
proof -
  let ?e = "PlaywrightError ''net::ERR_CONNECTION_REFUSED''"
  have ent: "enter refused_manager = Inr refused_playwright"
    by (simp add: refused_manager_def)
  have lv: "leave refused_manager (Some ?e) = None"
    by (simp add: refused_manager_def)
  have drv: "chromium_launch refused_playwright True = Inr (Browser 1) \<and>
      new_context refused_playwright (Browser 1) = Inr (BrowserContext 2) \<and>
      new_page refused_playwright (BrowserContext 2) = Inr (Page 3) \<and>
      goto refused_playwright (Page 3) ''http://localhost:1420/'' = Inl ?e"
    by (simp add: refused_playwright_def ok_playwright_def)
  have noclose: "BrowserClose \<notin> set (calls (snd (run refused_playwright (fresh Map.empty))))"
    by (simp add: run_refused_playwright)
  note inst = unhandled_faults_abort [OF ent, where w = "fresh Map.empty" and fs = Map.empty
      and b = "Browser 1" and c = "BrowserContext 2" and p = "Page 3" and e = ?e]
  from inst drv have res: "fst (run refused_playwright (fresh Map.empty)) = Inl ?e"
    by blast
  from inst res lv noclose ent drv show ?thesis
    by blast
qed

text \<open>
  C10. When entering the context manager has returned, the script's last call is the
  exit of the context manager, on every path: after a \<open>run\<close> that returned, and after
  a \<open>run\<close> that raised, in which case the exit receives that exception. When entering
  raised, nothing was acquired and nothing else is called.
\<close>

theorem leave_on_every_path:
  "(enter cm = Inl e \<longrightarrow> calls (snd (script cm w)) = calls w @ [Enter]) \<and>
   (enter cm = Inr pw \<longrightarrow>
      calls (snd (script cm w)) =
        calls w @ [Enter] @ calls (snd (run pw (fresh fs))) @
          [Leave (case fst (run pw (fresh fs)) of Inl e' \<Rightarrow> Some e' | Inr u \<Rightarrow> None)] \<and>
      (fst (run pw (fresh fs)) = Inl e \<longrightarrow> last (calls (snd (script cm w))) = Leave (Some e)))"
  using script_calls [where cm = cm and e = e and w = w and pw = pw and fs = fs]
  by simp

text \<open>
  The theorem of C10 with nothing listening on the port: \<open>run\<close> raises before it
  reaches the close of the browser, and the exit of the context manager is still called.
\<close>

theorem leave_on_every_path_witness:
  "enter refused_manager = Inr refused_playwright \<and>
   fst (run refused_playwright (fresh Map.empty))
     = Inl (PlaywrightError ''net::ERR_CONNECTION_REFUSED'') \<and>
   calls (snd (script refused_manager (fresh Map.empty))) =
     [Enter, Launch True, NewContext, NewPage, Goto ''http://localhost:1420/'',
      Leave (Some (PlaywrightError ''net::ERR_CONNECTION_REFUSED''))] \<and>
   last (calls (snd (script refused_manager (fresh Map.empty))))
     = Leave (Some (PlaywrightError ''net::ERR_CONNECTION_REFUSED''))"
proof -
  have ent: "enter refused_manager = Inr refused_playwright"
    by (simp add: refused_manager_def)
  have res: "fst (run refused_playwright (fresh Map.empty))
      = Inl (PlaywrightError ''net::ERR_CONNECTION_REFUSED'')"
    by (simp add: run_refused_playwright)
  have cs: "calls (snd (run refused_playwright (fresh Map.empty))) =
      [Launch True, NewContext, NewPage, Goto ''http://localhost:1420/'']"
    by (simp add: run_refused_playwright)
  from leave_on_every_path [where cm = refused_manager and pw = refused_playwright
      and w = "fresh Map.empty" and fs = Map.empty
      and e = "PlaywrightError ''net::ERR_CONNECTION_REFUSED''"] ent res cs
  show ?thesis by (simp add: fresh_def)
qed

subsection \<open>Two runs in a row\<close>



end
